theory Spec2Isabelle
  imports Main "HOL-Library.Word"
begin

section \<open>The event catcher mapping (eventCatcherMapping.js)\<close>

subsection \<open>ABI entries and registry entries\<close>

text \<open>
  An ABI is an ordered array. The module reads three properties of an entry: \<open>type\<close>
  and \<open>inputs\<close> (through the interface, for the signature text) and \<open>name\<close>
  (directly, in the filter of line 95). A JSON entry without a \<open>name\<close> property
  (a constructor, a fallback) has the name \<open>None\<close>, the \<open>undefined\<close> of the source.
\<close>

record abi_param =
  param_type :: string
  param_name :: string
  indexed :: bool

record abi_item =
  item_type :: string
  item_name :: "string option"
  inputs :: "abi_param list"

text \<open>
  The interface of ethers accepts an array whose elements are JSON objects or strings in
  the human-readable format (\<open>"event Transfer(address indexed from, ...)"\<close>). The
  parser of that format belongs to ethers, so a string entry carries the fragment its
  text denotes. A string has no \<open>name\<close> property: \<open>item.name\<close> is \<open>undefined\<close>
  for it, whatever the text declares.
\<close>

datatype abi_entry = JsonFragment abi_item | HumanReadable abi_item

fun fragment_of :: "abi_entry \<Rightarrow> abi_item" where
  "fragment_of (JsonFragment i) = i"
| "fragment_of (HumanReadable i) = i"

fun entry_name :: "abi_entry \<Rightarrow> string option" where
  "entry_name (JsonFragment i) = item_name i"
| "entry_name (HumanReadable i) = None"

text \<open>
  The functions imported from \<open>./eventCatcherUtils\<close>. A function reference is a
  tag; two references are the same function exactly when the tags are equal.
  \<open>inherited\<close> stands for a member that a property read on an object literal
  finds on \<open>Object.prototype\<close> rather than on the literal itself.
\<close>

datatype handler =
    insertContract
  | insertCollection
  | insertTokenClassic
  | insertTokenDiamond
  | insertOfferPool
  | insertOffer
  | insertDiamondOffer
  | insertLock
  | insertDiamondRange
  | metadataForToken
  | metadataForProduct
  | updateOfferClassic
  | updateDiamondRange
  | metadataForContract
  | handleResaleOffer
  | updateResaleOffer
  | registerCustomSplits
  | depositCredits
  | withdrawCredits
  | updateMintingOffer
  | inherited string

text \<open>The value stored under an identifier: the object literal of lines 99 to 104.\<close>

record mapping_entry =
  signature :: string
  abi :: "abi_entry list"
  diamondEvent :: bool
  operation :: "handler option"

type_synonym 'h event_mapping = "'h \<rightharpoonup> mapping_entry"

subsection \<open>insertionMapping\<close>

text \<open>The own properties of the object literal, in the order of the source.\<close>

definition insertionMapping_own :: "(string \<times> handler) list" where
  "insertionMapping_own =
    [(''DeployedContract'', insertContract),
     (''CreatedCollection'', insertCollection),
     (''CreatedRange'', insertDiamondRange),
     (''UpdatedRange'', updateDiamondRange),
     (''UpdatedBaseURI'', metadataForContract),
     (''UpdatedProductURI'', metadataForProduct),
     (''UpdatedTokenURI'', metadataForToken),
     (''AddedMintingOffer'', insertDiamondOffer),
     (''TokenMinted'', insertTokenClassic),
     (''MintedToken'', insertTokenDiamond),
     (''UpdatedMintingOffer'', updateMintingOffer),
     (''NewContractDeployed'', insertContract),
     (''BaseURIChanged'', metadataForContract),
     (''ProductURIChanged'', metadataForProduct),
     (''TokenURIChanged'', metadataForToken),
     (''ProductCreated'', insertCollection),
     (''AddedOffer'', insertOfferPool),
     (''AppendedRange'', insertOffer),
     (''RangeLocked'', insertLock),
     (''UpdatedOffer'', updateOfferClassic),
     (''OfferStatusChange'', handleResaleOffer),
     (''UpdatedOfferPrice'', updateResaleOffer),
     (''CustomRoyaltiesSet'', registerCustomSplits),
     (''ReceivedTokens'', depositCredits),
     (''WithdrewCredit'', withdrawCredits)]"

text \<open>
  The property names every object literal inherits. A read \<open>insertionMapping[name]\<close>
  with one of them yields the inherited member, not \<open>undefined\<close>.
\<close>

definition object_prototype_keys :: "string list" where
  "object_prototype_keys =
    [''constructor'', ''__defineGetter__'', ''__defineSetter__'', ''hasOwnProperty'',
     ''__lookupGetter__'', ''__lookupSetter__'', ''isPrototypeOf'',
     ''propertyIsEnumerable'', ''toString'', ''valueOf'', ''__proto__'',
     ''toLocaleString'']"

text \<open>
  The read \<open>insertionMapping[name]\<close> for a string \<open>name\<close>: \<open>None\<close> is
  \<open>undefined\<close>.
\<close>

definition insertionMapping :: "string \<Rightarrow> handler option" where
  "insertionMapping nm =
    (case map_of insertionMapping_own nm of
       Some f \<Rightarrow> Some f
     | None \<Rightarrow> if nm \<in> set object_prototype_keys then Some (inherited nm) else None)"

text \<open>
  A property key is a string: the read of line 103 with an \<open>undefined\<close> name looks
  the key \<open>"undefined"\<close> up.
\<close>

fun property_key :: "string option \<Rightarrow> string" where
  "property_key None = ''undefined''"
| "property_key (Some nm) = nm"

subsection \<open>The ethers package\<close>

text \<open>
  \<open>const { utils } = require('ethers')\<close>: the package is not part of the sources,
  so the two members the module uses are parameters of the model. \<open>utils_id\<close> is
  \<open>utils.id\<close>, the hash of a text; \<open>utils_events a\<close> is
  \<open>Object.keys(new utils.Interface(a).events)\<close>, the signature texts of the events
  of the ABI \<open>a\<close> in the order of the keys of the object.
\<close>

record 'h ethers_utils =
  utils_id :: "string \<Rightarrow> 'h"
  utils_events :: "abi_entry list \<Rightarrow> string list"

subsection \<open>getContractEvents\<close>

text \<open>\<open>eventSignature.split('(')[0]\<close>: the text before the first parenthesis.\<close>

definition event_name :: "string \<Rightarrow> string" where
  "event_name eventSignature = takeWhile (\<lambda>c. c \<noteq> CHR ''('') eventSignature"

text \<open>
  The body of the \<open>forEach\<close> callback, lines 94 to 105. The state is the mapping
  under construction together with the lines written by \<open>console.error\<close>.
\<close>

definition register_event ::
  "'h ethers_utils \<Rightarrow> abi_entry list \<Rightarrow> bool \<Rightarrow>
   'h event_mapping \<times> string list \<Rightarrow> string \<Rightarrow> 'h event_mapping \<times> string list" where
  "register_event utils a isDiamond st eventSignature =
     (case filter (\<lambda>item. entry_name item = Some (event_name eventSignature)) a of
        [] \<Rightarrow> (fst st, snd st @ [''Couldn't find ABI for signature '' @ eventSignature])
      | singleAbi # _ \<Rightarrow>
          ((fst st)(utils_id utils eventSignature \<mapsto>
             \<lparr>signature = eventSignature,
              abi = [singleAbi],
              diamondEvent = isDiamond,
              operation = insertionMapping (property_key (entry_name singleAbi))\<rparr>),
           snd st))"

text \<open>
  \<open>getContractEvents_run\<close> is the function of the source together with its console
  output, \<open>getContractEvents\<close> the value it returns.
\<close>

definition getContractEvents_run ::
  "'h ethers_utils \<Rightarrow> abi_entry list \<Rightarrow> bool \<Rightarrow> 'h event_mapping \<times> string list" where
  "getContractEvents_run utils a isDiamond =
     foldl (register_event utils a isDiamond) (Map.empty, []) (utils_events utils a)"

definition getContractEvents ::
  "'h ethers_utils \<Rightarrow> abi_entry list \<Rightarrow> bool \<Rightarrow> 'h event_mapping" where
  "getContractEvents utils a isDiamond = fst (getContractEvents_run utils a isDiamond)"

subsection \<open>masterMapping\<close>

text \<open>
  The ABIs exported by \<open>../integrations/ethers/contracts\<close>. Their contents are not
  part of the sources, so they are the input of the model.
\<close>

record contracts =
  erc721Abi :: "abi_entry list"
  minterAbi :: "abi_entry list"
  factoryAbi :: "abi_entry list"
  diamondMarketplaceAbi :: "abi_entry list"
  diamondFactoryAbi :: "abi_entry list"
  classicDeprecatedEvents :: "abi_entry list"
  diamondDeprecatedEvents :: "abi_entry list"
  resaleMarketplaceEvents :: "abi_entry list"
  creditHandlerEvents :: "abi_entry list"

text \<open>
  The object literal of lines 111 to 124. A spread copies the own properties of its
  operand into the literal, so a later spread overwrites the value of a key an
  earlier one has set: \<open>m ++ n\<close>.
\<close>

definition masterMapping :: "'h ethers_utils \<Rightarrow> contracts \<Rightarrow> 'h event_mapping" where
  "masterMapping utils c =
     getContractEvents utils (erc721Abi c) False
     ++ getContractEvents utils (minterAbi c) False
     ++ getContractEvents utils (factoryAbi c) False
     ++ getContractEvents utils (diamondFactoryAbi c) True
     ++ getContractEvents utils (diamondMarketplaceAbi c) True
     ++ getContractEvents utils (classicDeprecatedEvents c) False
     ++ getContractEvents utils (diamondDeprecatedEvents c) True
     ++ getContractEvents utils (resaleMarketplaceEvents c) False
     ++ getContractEvents utils (creditHandlerEvents c) True"

text \<open>
  The calls of \<open>getContractEvents\<close> in the order in which the literal evaluates them.
\<close>

definition build_order :: "contracts \<Rightarrow> (abi_entry list \<times> bool) list" where
  "build_order c =
     [(erc721Abi c, False), (minterAbi c, False), (factoryAbi c, False),
      (diamondFactoryAbi c, True), (diamondMarketplaceAbi c, True),
      (classicDeprecatedEvents c, False), (diamondDeprecatedEvents c, True),
      (resaleMarketplaceEvents c, False), (creditHandlerEvents c, True)]"

text \<open>
  The outcome of loading the module: either an exception aborts the load or
  \<open>module.exports\<close> is reached. The two build-time conditions the specification names
  are the errors of the model. No statement of the module throws:
  \<open>getContractEvents\<close> writes to the console where no entry matches, and the literal
  merges without a check. So the load delivers the mapping, with the console output
  of the nine calls.
\<close>

datatype build_error = MissingFragment | RegistryConflict

fun console_of :: "'h ethers_utils \<Rightarrow> (abi_entry list \<times> bool) list \<Rightarrow> string list" where
  "console_of utils [] = []"
| "console_of utils ((a, d) # rest) =
     snd (getContractEvents_run utils a d) @ console_of utils rest"

definition load_module ::
  "'h ethers_utils \<Rightarrow> contracts \<Rightarrow> build_error + ('h event_mapping \<times> string list)" where
  "load_module utils c = Inr (masterMapping utils c, console_of utils (build_order c))"

subsection \<open>A model of the two members of ethers, for evaluation\<close>

fun join_commas :: "string list \<Rightarrow> string" where
  "join_commas [] = []"
| "join_commas [t] = t"
| "join_commas (t # ts) = t @ '','' @ join_commas ts"

text \<open>
  Modelled from the spec: the canonical signature text of an event. The class
  \<open>utils.Interface\<close> is missing from the sources; the specification gives the text as
  \<open>name(type1,type2,...)\<close>. \<open>param_type\<close> is the canonical type text of a parameter.
\<close>

definition event_signature :: "abi_item \<Rightarrow> string" where
  "event_signature item =
     property_key (item_name item) @ ''('' @ join_commas (map param_type (inputs item)) @ '')''"

text \<open>
  The keys of an object are distinct and are listed in the order of their first
  insertion.
\<close>

fun object_keys :: "string list \<Rightarrow> string list \<Rightarrow> string list" where
  "object_keys seen [] = []"
| "object_keys seen (k # ks) =
     (if k \<in> set seen then object_keys seen ks else k # object_keys (k # seen) ks)"

text \<open>
  Modelled from the spec: the keys of \<open>new utils.Interface(a).events\<close>, which is
  missing from the sources. The specification has the builder enumerate every entry
  of kind "event" and build its canonical signature text.
\<close>

definition interface_events :: "abi_entry list \<Rightarrow> string list" where
  "interface_events a =
     object_keys []
       (map event_signature
          (filter (\<lambda>item. item_type item = ''event'' \<and> item_name item \<noteq> None)
             (map fragment_of a)))"

text \<open>
  Modelled from the spec: \<open>utils.id\<close>, which is missing from the sources. The
  specification asks of the hasher that it is a function of the text. In the
  evaluations below the identifier of a text is the text itself, so that distinct
  texts have distinct identifiers.
\<close>

definition text_id :: "string \<Rightarrow> string" where
  "text_id s = s"

definition ethers_model :: "string ethers_utils" where
  "ethers_model = \<lparr>utils_id = text_id, utils_events = interface_events\<rparr>"

subsection \<open>Derived notions used in the statements\<close>

text \<open>The first entry of an ABI, in the order of the array, that has a given name.\<close>

definition first_named :: "abi_entry list \<Rightarrow> string \<Rightarrow> abi_entry option" where
  "first_named a nm = find (\<lambda>item. entry_name item = Some nm) a"

text \<open>The entry that line 99 stores for a signature whose fragment is \<open>x\<close>.\<close>

definition entry_for :: "abi_entry \<Rightarrow> bool \<Rightarrow> string \<Rightarrow> mapping_entry" where
  "entry_for x d sig =
     \<lparr>signature = sig, abi = [x], diamondEvent = d,
      operation = insertionMapping (property_key (entry_name x))\<rparr>"

text \<open>The mapping returned by the call at position \<open>l\<close> of the build order.\<close>

definition events_at :: "'h ethers_utils \<Rightarrow> contracts \<Rightarrow> nat \<Rightarrow> 'h event_mapping" where
  "events_at utils c l =
     getContractEvents utils (fst (build_order c ! l)) (snd (build_order c ! l))"

text \<open>Every signature text the interface derives from some ABI of the corpus.\<close>

definition corpus_signatures :: "'h ethers_utils \<Rightarrow> contracts \<Rightarrow> string set" where
  "corpus_signatures utils c = (\<Union>p\<in>set (build_order c). set (utils_events utils (fst p)))"

subsection \<open>A small corpus, for evaluation\<close>

text \<open>
  A JSON entry of kind "event" with the given name and parameter types. The names and
  flags of the parameters do not enter the signature text.
\<close>

definition event_entry :: "string \<Rightarrow> string list \<Rightarrow> abi_item" where
  "event_entry nm types =
     \<lparr>item_type = ''event'', item_name = Some nm,
      inputs = map (\<lambda>t. \<lparr>param_type = t, param_name = [], indexed = False\<rparr>) types\<rparr>"

text \<open>
  \<open>RoleGranted\<close> as the compiler emits it, with the names and the index flags of its
  parameters.
\<close>

definition role_granted_indexed :: abi_item where
  "role_granted_indexed =
     \<lparr>item_type = ''event'', item_name = Some ''RoleGranted'',
      inputs =
        [\<lparr>param_type = ''bytes32'', param_name = ''role'', indexed = True\<rparr>,
         \<lparr>param_type = ''address'', param_name = ''account'', indexed = True\<rparr>,
         \<lparr>param_type = ''address'', param_name = ''sender'', indexed = True\<rparr>]\<rparr>"

text \<open>
  The token ABI, the minter ABI and the diamond factory ABI all declare
  \<open>RoleGranted\<close>, as contracts with access control do, the diamond factory with
  another fragment for the same signature; \<open>SoldOut\<close> and \<open>RoleGranted\<close> have no
  handler; the deprecated
  classic events hold two versions of \<open>TokenMinted\<close>; the credit handler events are
  given in the human-readable format.
\<close>

definition sample_contracts :: contracts where
  "sample_contracts =
     \<lparr>erc721Abi =
        [JsonFragment \<lparr>item_type = ''constructor'', item_name = None, inputs = []\<rparr>,
         JsonFragment
           (event_entry ''ProductCreated'' [''uint256'', ''string'', ''uint256'', ''uint256'']),
         JsonFragment (event_entry ''RoleGranted'' [''bytes32'', ''address'', ''address''])],
      minterAbi =
        [JsonFragment (event_entry ''RoleGranted'' [''bytes32'', ''address'', ''address'']),
         JsonFragment (event_entry ''SoldOut'' [''address'', ''uint256'', ''uint256''])],
      factoryAbi =
        [JsonFragment
           (event_entry ''NewContractDeployed''
              [''address'', ''uint256'', ''address'', ''string''])],
      diamondMarketplaceAbi = [],
      diamondFactoryAbi =
        [JsonFragment
           (event_entry ''DeployedContract'' [''address'', ''uint256'', ''address'', ''string'']),
         JsonFragment
           (event_entry ''CreatedCollection''
              [''uint256'', ''string'', ''uint256'', ''uint256'']),
         JsonFragment role_granted_indexed],
      classicDeprecatedEvents =
        [JsonFragment
           (event_entry ''TokenMinted'' [''address'', ''uint256'', ''uint256'', ''uint256'']),
         JsonFragment
           (event_entry ''TokenMinted''
              [''address'', ''address'', ''uint256'', ''uint256'', ''uint256''])],
      diamondDeprecatedEvents = [],
      resaleMarketplaceEvents = [],
      creditHandlerEvents =
        [HumanReadable (event_entry ''ReceivedTokens'' [''address'', ''uint256'', ''uint256''])]\<rparr>"

text \<open>
  A corpus with two events that are no key of \<open>insertionMapping\<close>: the token ABI
  declares an event named \<open>toString\<close> as a JSON entry, and the minter ABI declares
  \<open>SoldOut\<close> in the human-readable format.
\<close>

definition prototype_contracts :: contracts where
  "prototype_contracts =
     \<lparr>erc721Abi = [JsonFragment (event_entry ''toString'' [''uint256''])],
      minterAbi =
        [HumanReadable (event_entry ''SoldOut'' [''address'', ''uint256'', ''uint256''])],
      factoryAbi = [],
      diamondMarketplaceAbi = [],
      diamondFactoryAbi = [],
      classicDeprecatedEvents = [],
      diamondDeprecatedEvents = [],
      resaleMarketplaceEvents = [],
      creditHandlerEvents = []\<rparr>"

section \<open>Dispatch of log records\<close>

text \<open>
  Modelled from the spec: the Dispatcher and the Idempotent Apply Layer (sections 3,
  4.5 and 4.6). The code that consumes \<open>masterMapping\<close> is missing from the sources,
  and so are the handler functions of \<open>./eventCatcherUtils\<close> and the decoder. A log
  record carries the fields the specification lists.
\<close>

record 'h log_record =
  log_identifier :: 'h
  raw_parameters :: "nat list"
  contract_address :: string
  block_number :: nat
  log_index :: nat
  transaction_hash :: string

text \<open>
  Modelled from the spec: the metadata the handler is invoked with (block number, log
  index, transaction hash, source contract address).
\<close>

record log_meta =
  meta_block_number :: nat
  meta_log_index :: nat
  meta_transaction_hash :: string
  meta_contract_address :: string

definition meta_of :: "'h log_record \<Rightarrow> log_meta" where
  "meta_of r =
     \<lparr>meta_block_number = block_number r, meta_log_index = log_index r,
      meta_transaction_hash = transaction_hash r,
      meta_contract_address = contract_address r\<rparr>"

text \<open>
  Modelled from the spec: persisted state is the mirror the handlers write, of a type
  \<open>'s\<close> that stays open, together with the AppliedLog ledger of (transaction hash,
  log index) pairs.
\<close>

record 's persisted =
  store :: 's
  ledger :: "(string \<times> nat) set"

definition applied_key :: "'h log_record \<Rightarrow> string \<times> nat" where
  "applied_key r = (transaction_hash r, log_index r)"

text \<open>
  Modelled from the spec: the collaborators of the Dispatcher. \<open>decode\<close> decodes the
  raw parameter bytes against the ABI fragment of the entry, \<open>None\<close> being a decode
  failure; \<open>run_handler\<close> applies the mutation of a handler to the store, \<open>None\<close>
  being a handler failure.
\<close>

record ('s, 'v) collaborators =
  decode :: "abi_entry list \<Rightarrow> nat list \<Rightarrow> 'v option"
  run_handler :: "handler \<Rightarrow> 'v \<Rightarrow> log_meta \<Rightarrow> 's \<Rightarrow> 's option"

datatype dispatch_outcome =
    UnknownEvent
  | Unhandled
  | MalformedLog
  | DuplicateApplication
  | HandlerFailure
  | Applied

text \<open>
  Modelled from the spec: the seven steps of section 4.5. Step 6 writes the ledger
  entry and the mutation of the handler as one unit; every other outcome leaves
  persisted state as it was.
\<close>

definition dispatch ::
  "('s, 'v) collaborators \<Rightarrow> 'h event_mapping \<Rightarrow> 's persisted \<Rightarrow> 'h log_record \<Rightarrow>
   dispatch_outcome \<times> 's persisted" where
  "dispatch env registry st r =
     (case registry (log_identifier r) of
        None \<Rightarrow> (UnknownEvent, st)
      | Some entry \<Rightarrow>
          (case operation entry of
             None \<Rightarrow> (Unhandled, st)
           | Some h \<Rightarrow>
               (case decode env (abi entry) (raw_parameters r) of
                  None \<Rightarrow> (MalformedLog, st)
                | Some args \<Rightarrow>
                    if applied_key r \<in> ledger st then (DuplicateApplication, st)
                    else
                      (case run_handler env h args (meta_of r) (store st) of
                         None \<Rightarrow> (HandlerFailure, st)
                       | Some s' \<Rightarrow>
                           (Applied,
                            \<lparr>store = s', ledger = insert (applied_key r) (ledger st)\<rparr>)))))"

text \<open>Modelled from the spec: the driver delivers one record after the other.\<close>

definition dispatch_all ::
  "('s, 'v) collaborators \<Rightarrow> 'h event_mapping \<Rightarrow> 's persisted \<Rightarrow> 'h log_record list \<Rightarrow>
   's persisted" where
  "dispatch_all env registry st rs = foldl (\<lambda>s r. snd (dispatch env registry s r)) st rs"

subsection \<open>A delivery, for evaluation\<close>

text \<open>
  Modelled from the spec: collaborators whose decoder accepts every record and whose
  handlers count their applications in the store, a record for the event
  \<open>ProductCreated\<close> of the sample corpus, and an empty persisted state.
\<close>

definition sample_env :: "(nat, nat list) collaborators" where
  "sample_env =
     \<lparr>decode = (\<lambda>fragment bytes. Some bytes),
      run_handler = (\<lambda>h args meta applied. Some (Suc applied))\<rparr>"

definition sample_log :: "string log_record" where
  "sample_log =
     \<lparr>log_identifier = ''ProductCreated(uint256,string,uint256,uint256)'',
      raw_parameters = [], contract_address = ''0xc0'', block_number = 10, log_index = 0,
      transaction_hash = ''0x01''\<rparr>"

definition sample_registry :: "string event_mapping" where
  "sample_registry = getContractEvents ethers_model (erc721Abi sample_contracts) False"

definition sample_persisted :: "nat persisted" where
  "sample_persisted = \<lparr>store = 0, ledger = {}\<rparr>"

section \<open>The RAIR_ERC721 contract\<close>

type_synonym uint = "256 word"
type_synonym address = "160 word"

record collection =
  startingToken :: uint
  endingToken :: uint
  mintableTokens :: uint
  enableResaleAt :: uint
  name :: string

datatype role = CREATOR | MINTER

text \<open>
  The events the contract emits; the first argument is the index of the collection.
\<close>

datatype contract_event =
    CollectionCreated nat string uint
  | TransfersEnabled nat string
  | CollectionCompleted nat string

text \<open>
  The storage of the contract as far as \<open>createCollection\<close> and the transfer hook
  read or write it: the array \<open>_collections\<close>, the mapping \<open>tokenToCollection\<close> (a
  key never written reads as 0), the role members kept by the access control of the
  base contract, and the log of emitted events.
\<close>

record rair_erc721 =
  collections :: "collection list"
  tokenToCollection :: "uint \<Rightarrow> uint"
  hasRole :: "role \<Rightarrow> address \<Rightarrow> bool"
  emitted :: "contract_event list"

text \<open>
  A call reverts with the message of a failed \<open>require\<close>, with a panic code of the
  compiler (0x11 for an arithmetic overflow, 0x32 for an array index out of bounds;
  the pragma selects a compiler with checked arithmetic), or because the modifier
  \<open>onlyRole\<close> of the base contract rejects the caller.
\<close>

datatype revert = Error string | Panic nat | MissingRole address role

text \<open>Lines 56 to 74. \<open>sender\<close> is \<open>msg.sender\<close>.\<close>

definition createCollection ::
  "address \<Rightarrow> string \<Rightarrow> uint \<Rightarrow> uint \<Rightarrow> rair_erc721 \<Rightarrow> revert + rair_erc721" where
  "createCollection sender collectionName copies resaleAt s =
     (if \<not> hasRole s CREATOR sender then Inl (MissingRole sender CREATOR)
      else if \<not> (copies \<ge> resaleAt) then
        Inl (Error ''ERC721: Resale start should be less than the total amount of copies'')
      else
        let lastToken =
              (if length (collections s) = 0 then 0
               else endingToken (collections s ! (length (collections s) - 1)))
        in
          if 2 ^ 256 \<le> unat lastToken + unat copies then Inl (Panic 0x11)
          else
            let newCollection =
                  \<lparr>startingToken = lastToken,
                   endingToken = lastToken + copies,
                   mintableTokens = copies,
                   enableResaleAt = resaleAt,
                   name = collectionName\<rparr>;
                cs = collections s @ [newCollection];
                created = [CollectionCreated (length cs - 1) collectionName copies];
                enabled =
                  (if resaleAt = 0 then [TransfersEnabled (length cs - 1) collectionName]
                   else [])
            in Inr (s\<lparr>collections := cs, emitted := emitted s @ created @ enabled\<rparr>))"

text \<open>
  Lines 154 to 159, the hook \<open>_beforeTokenTransfer\<close>. \<open>super_hook\<close> is the hook of the
  base contract ERC721Enumerable, which is not part of the sources.
\<close>

definition beforeTokenTransfer ::
  "(address \<Rightarrow> address \<Rightarrow> uint \<Rightarrow> rair_erc721 \<Rightarrow> revert + rair_erc721) \<Rightarrow>
   address \<Rightarrow> address \<Rightarrow> uint \<Rightarrow> rair_erc721 \<Rightarrow> revert + rair_erc721" where
  "beforeTokenTransfer super_hook from to tokenId s =
     (if from \<noteq> 0 \<and> to \<noteq> 0 then
        (if \<not> unat (tokenToCollection s tokenId) < length (collections s) then
           Inl (Panic 0x32)
         else if enableResaleAt (collections s ! unat (tokenToCollection s tokenId)) \<noteq> 0 then
           Inl (Error ''RAIR ERC721: Transfers for this collection haven't been enabled'')
         else super_hook from to tokenId s)
      else super_hook from to tokenId s)"

text \<open>
  The token ranges of the collections lie end to end from token 0: each collection
  starts where the one before it ends.
\<close>

fun contiguous_from :: "uint \<Rightarrow> collection list \<Rightarrow> bool" where
  "contiguous_from t [] = True"
| "contiguous_from t (c # cs) =
     (startingToken c = t \<and> startingToken c \<le> endingToken c \<and> contiguous_from (endingToken c) cs)"

subsection \<open>Contract states, for evaluation\<close>

text \<open>
  Address 1 holds both roles; no token has been assigned to a collection; the base
  hook accepts every transfer. \<open>fresh_contract\<close> is the contract after deployment;
  \<open>locked_contract\<close> has one collection of ten tokens, one of them minted, whose
  transfers are still locked.
\<close>

definition creator_only :: "role \<Rightarrow> address \<Rightarrow> bool" where
  "creator_only r a = (a = 1)"

definition no_tokens :: "uint \<Rightarrow> uint" where
  "no_tokens t = 0"

definition fresh_contract :: rair_erc721 where
  "fresh_contract =
     \<lparr>collections = [], tokenToCollection = no_tokens, hasRole = creator_only, emitted = []\<rparr>"

definition accept_hook :: "address \<Rightarrow> address \<Rightarrow> uint \<Rightarrow> rair_erc721 \<Rightarrow> revert + rair_erc721" where
  "accept_hook from to tokenId s = Inr s"

definition locked_contract :: rair_erc721 where
  "locked_contract =
     \<lparr>collections =
        [\<lparr>startingToken = 0, endingToken = 10, mintableTokens = 9, enableResaleAt = 2,
          name = ''first''\<rparr>],
      tokenToCollection = no_tokens, hasRole = creator_only, emitted = []\<rparr>"

section \<open>Properties of the event catcher mapping\<close>

subsection \<open>The loop of getContractEvents and the merge\<close>

lemma case_filter_find:
  "(case filter P xs of [] \<Rightarrow> A | x # _ \<Rightarrow> B x) = (case find P xs of None \<Rightarrow> A | Some x \<Rightarrow> B x)"
  by (induction xs) auto

lemma register_event_find:
  "register_event u a d st sig =
     (case first_named a (event_name sig) of
        None \<Rightarrow> (fst st, snd st @ [''Couldn't find ABI for signature '' @ sig])
      | Some x \<Rightarrow> ((fst st)(utils_id u sig \<mapsto> entry_for x d sig), snd st))"
  unfolding register_event_def first_named_def entry_for_def case_filter_find ..

lemma fold_register_origin:
  "fst (foldl (register_event u a d) st keys) k = Some e \<Longrightarrow>
     fst st k = Some e \<or>
     (\<exists>sig\<in>set keys. \<exists>x. first_named a (event_name sig) = Some x \<and>
         k = utils_id u sig \<and> e = entry_for x d sig)"
proof (induction keys arbitrary: st)
  case Nil
  then show ?case by simp
next
  case (Cons s keys)
  from Cons.IH [OF Cons.prems [simplified]]
  show ?case
    by (auto simp: register_event_find split: option.splits if_splits)
qed

lemma getContractEvents_origin:
  assumes "getContractEvents u a d k = Some e"
  shows "\<exists>sig\<in>set (utils_events u a). \<exists>x. first_named a (event_name sig) = Some x \<and>
           k = utils_id u sig \<and> e = entry_for x d sig"
  using fold_register_origin [of u a d "(Map.empty, [])" "utils_events u a" k e] assms
  by (simp add: getContractEvents_def getContractEvents_run_def)

lemma fold_register_dom_mono:
  "k \<in> dom (fst st) \<Longrightarrow> k \<in> dom (fst (foldl (register_event u a d) st keys))"
  by (induction keys arbitrary: st) (auto simp: register_event_find split: option.splits)

lemma fold_register_present:
  "sig \<in> set keys \<Longrightarrow> first_named a (event_name sig) = Some x \<Longrightarrow>
     utils_id u sig \<in> dom (fst (foldl (register_event u a d) st keys))"
proof (induction keys arbitrary: st)
  case Nil
  then show ?case by simp
next
  case (Cons s keys)
  show ?case
  proof (cases "s = sig")
    case True
    have "utils_id u sig \<in> dom (fst (register_event u a d st sig))"
      using Cons.prems(2) by (simp add: register_event_find)
    then show ?thesis
      using True by (simp add: fold_register_dom_mono)
  next
    case False
    then show ?thesis using Cons by simp
  qed
qed

lemma getContractEvents_present:
  "sig \<in> set (utils_events u a) \<Longrightarrow> first_named a (event_name sig) = Some x \<Longrightarrow>
     utils_id u sig \<in> dom (getContractEvents u a d)"
  by (simp add: getContractEvents_def getContractEvents_run_def fold_register_present)

lemma fold_register_console_mono:
  "l \<in> set (snd st) \<Longrightarrow> l \<in> set (snd (foldl (register_event u a d) st keys))"
  by (induction keys arbitrary: st) (auto simp: register_event_find split: option.splits)

lemma fold_register_console:
  "sig \<in> set keys \<Longrightarrow> first_named a (event_name sig) = None \<Longrightarrow>
     ''Couldn't find ABI for signature '' @ sig
       \<in> set (snd (foldl (register_event u a d) st keys))"
proof (induction keys arbitrary: st)
  case Nil
  then show ?case by simp
next
  case (Cons s keys)
  show ?case
  proof (cases "s = sig")
    case True
    have "''Couldn't find ABI for signature '' @ sig \<in> set (snd (register_event u a d st sig))"
      using Cons.prems(2) by (simp add: register_event_find)
    then show ?thesis
      using True by (simp add: fold_register_console_mono)
  next
    case False
    then show ?thesis using Cons by simp
  qed
qed

lemma console_of_member:
  "(a, d) \<in> set ps \<Longrightarrow> l \<in> set (snd (getContractEvents_run u a d)) \<Longrightarrow> l \<in> set (console_of u ps)"
  by (induction ps) auto

lemma masterMapping_foldl:
  "masterMapping u c = foldl (++) Map.empty (map (\<lambda>p. getContractEvents u (fst p) (snd p)) (build_order c))"
  by (simp add: masterMapping_def build_order_def)

lemma foldl_map_add_Some:
  "foldl (++) m ms k = Some e \<Longrightarrow> m k = Some e \<or> (\<exists>n\<in>set ms. n k = Some e)"
  by (induction ms arbitrary: m) (auto simp: map_add_Some_iff)

lemma foldl_map_add_dom:
  "dom (foldl (++) m ms) = dom m \<union> (\<Union>n\<in>set ms. dom n)"
  by (induction ms arbitrary: m) auto

lemma foldl_map_add_last:
  "j < length ms \<Longrightarrow> (ms ! j) k = Some e \<Longrightarrow>
   (\<forall>l. j < l \<and> l < length ms \<longrightarrow> (ms ! l) k = None) \<Longrightarrow>
   foldl (++) m ms k = Some e"
proof (induction ms arbitrary: m rule: rev_induct)
  case Nil
  then show ?case by simp
next
  case (snoc n ms)
  show ?case
  proof (cases "j = length ms")
    case True
    then show ?thesis using snoc.prems by simp
  next
    case False
    then have j: "j < length ms" using snoc.prems(1) by simp
    have n: "n k = None"
      using snoc.prems(3) [rule_format, of "length ms"] j by simp
    have "foldl (++) m ms k = Some e"
    proof (rule snoc.IH [OF j])
      show "(ms ! j) k = Some e" using snoc.prems(2) j by (simp add: nth_append)
      show "\<forall>l. j < l \<and> l < length ms \<longrightarrow> (ms ! l) k = None"
        using snoc.prems(3) by (auto simp: nth_append split: if_splits)
    qed
    then show ?thesis using n by (simp add: map_add_Some_iff)
  qed
qed

lemma masterMapping_origin:
  "masterMapping u c k = Some e \<Longrightarrow>
     \<exists>p\<in>set (build_order c). getContractEvents u (fst p) (snd p) k = Some e"
  using foldl_map_add_Some
    [of Map.empty "map (\<lambda>p. getContractEvents u (fst p) (snd p)) (build_order c)" k e]
  by (auto simp: masterMapping_foldl)

lemma masterMapping_dom:
  "dom (masterMapping u c) = (\<Union>p\<in>set (build_order c). dom (getContractEvents u (fst p) (snd p)))"
  by (simp add: masterMapping_foldl foldl_map_add_dom)


lemma build_order_length: "length (build_order c) = 9"
  by (simp add: build_order_def)

lemma events_at_member:
  "l < length (build_order c) \<Longrightarrow> k \<in> dom (events_at u c l) \<Longrightarrow> k \<in> dom (masterMapping u c)"
  unfolding masterMapping_dom events_at_def
  by (metis (no_types, lifting) UN_I nth_mem)

lemma first_named_SomeD:
  "first_named a nm = Some x \<Longrightarrow>
     \<exists>i<length a. x = a ! i \<and> entry_name x = Some nm \<and> (\<forall>j<i. entry_name (a ! j) \<noteq> Some nm)"
  unfolding first_named_def find_Some_iff by blast

lemma first_named_None_iff:
  "first_named a nm = None \<longleftrightarrow> (\<forall>item\<in>set a. entry_name item \<noteq> Some nm)"
  unfolding first_named_def find_None_iff by blast

lemma entry_for_operation:
  "entry_name x = Some nm \<Longrightarrow> operation (entry_for x d sig) = insertionMapping nm"
  by (simp add: entry_for_def)

lemma masterMapping_entry:
  assumes "masterMapping u c k = Some e"
  shows "\<exists>p\<in>set (build_order c). \<exists>sig\<in>set (utils_events u (fst p)). \<exists>x.
           first_named (fst p) (event_name sig) = Some x \<and> k = utils_id u sig \<and>
           e = entry_for x (snd p) sig"
proof -
  from masterMapping_origin [OF assms] obtain p where
    p: "p \<in> set (build_order c)" and g: "getContractEvents u (fst p) (snd p) k = Some e"
    by blast
  from getContractEvents_origin [OF g] p show ?thesis by blast
qed

lemma masterMapping_registered:
  assumes inj: "inj_on (utils_id u) (corpus_signatures u c)"
    and p: "p \<in> set (build_order c)"
    and sig: "sig \<in> set (utils_events u (fst p))"
    and x: "first_named (fst p) (event_name sig) = Some x"
  shows "\<exists>q\<in>set (build_order c). \<exists>y.
           sig \<in> set (utils_events u (fst q)) \<and>
           first_named (fst q) (event_name sig) = Some y \<and>
           masterMapping u c (utils_id u sig) = Some (entry_for y (snd q) sig)"
proof -
  have "utils_id u sig \<in> dom (getContractEvents u (fst p) (snd p))"
    using sig x by (rule getContractEvents_present)
  then have "utils_id u sig \<in> dom (masterMapping u c)"
    unfolding masterMapping_dom using p by blast
  then obtain e where e: "masterMapping u c (utils_id u sig) = Some e" by blast
  from masterMapping_entry [OF e] obtain q s y where
    q: "q \<in> set (build_order c)" and s: "s \<in> set (utils_events u (fst q))" and
    y: "first_named (fst q) (event_name s) = Some y" and
    k: "utils_id u sig = utils_id u s" and ee: "e = entry_for y (snd q) s"
    by blast
  have "sig \<in> corpus_signatures u c" "s \<in> corpus_signatures u c"
    using p sig q s by (auto simp: corpus_signatures_def)
  with inj k have "s = sig" by (auto dest: inj_onD)
  with q s y e ee show ?thesis by blast
qed

subsection \<open>Evaluation of the sample corpus\<close>

lemma inj_on_text_id: "inj_on (utils_id ethers_model) S"
  by (simp add: ethers_model_def text_id_def inj_on_def)

lemma sample_events:
  "utils_events ethers_model (erc721Abi sample_contracts) =
     [''ProductCreated(uint256,string,uint256,uint256)'', ''RoleGranted(bytes32,address,address)'']"
  "utils_events ethers_model (minterAbi sample_contracts) =
     [''RoleGranted(bytes32,address,address)'', ''SoldOut(address,uint256,uint256)'']"
  "utils_events ethers_model (factoryAbi sample_contracts) =
     [''NewContractDeployed(address,uint256,address,string)'']"
  "utils_events ethers_model (diamondFactoryAbi sample_contracts) =
     [''DeployedContract(address,uint256,address,string)'',
      ''CreatedCollection(uint256,string,uint256,uint256)'',
      ''RoleGranted(bytes32,address,address)'']"
  "utils_events ethers_model (diamondMarketplaceAbi sample_contracts) = []"
  "utils_events ethers_model (classicDeprecatedEvents sample_contracts) =
     [''TokenMinted(address,uint256,uint256,uint256)'',
      ''TokenMinted(address,address,uint256,uint256,uint256)'']"
  "utils_events ethers_model (diamondDeprecatedEvents sample_contracts) = []"
  "utils_events ethers_model (resaleMarketplaceEvents sample_contracts) = []"
  "utils_events ethers_model (creditHandlerEvents sample_contracts) =
     [''ReceivedTokens(address,uint256,uint256)'']"
  by (simp_all add: ethers_model_def interface_events_def sample_contracts_def event_entry_def
      role_granted_indexed_def event_signature_def)

lemma sample_names:
  "event_name ''ProductCreated(uint256,string,uint256,uint256)'' = ''ProductCreated''"
  "event_name ''RoleGranted(bytes32,address,address)'' = ''RoleGranted''"
  "event_name ''SoldOut(address,uint256,uint256)'' = ''SoldOut''"
  "event_name ''NewContractDeployed(address,uint256,address,string)'' = ''NewContractDeployed''"
  "event_name ''DeployedContract(address,uint256,address,string)'' = ''DeployedContract''"
  "event_name ''CreatedCollection(uint256,string,uint256,uint256)'' = ''CreatedCollection''"
  "event_name ''TokenMinted(address,uint256,uint256,uint256)'' = ''TokenMinted''"
  "event_name ''TokenMinted(address,address,uint256,uint256,uint256)'' = ''TokenMinted''"
  "event_name ''ReceivedTokens(address,uint256,uint256)'' = ''ReceivedTokens''"
  by (simp_all add: event_name_def)

lemma sample_first_named:
  "first_named (erc721Abi sample_contracts) ''ProductCreated'' =
     Some (JsonFragment
       (event_entry ''ProductCreated'' [''uint256'', ''string'', ''uint256'', ''uint256'']))"
  "first_named (erc721Abi sample_contracts) ''RoleGranted'' =
     Some (JsonFragment (event_entry ''RoleGranted'' [''bytes32'', ''address'', ''address'']))"
  "first_named (minterAbi sample_contracts) ''RoleGranted'' =
     Some (JsonFragment (event_entry ''RoleGranted'' [''bytes32'', ''address'', ''address'']))"
  "first_named (minterAbi sample_contracts) ''SoldOut'' =
     Some (JsonFragment (event_entry ''SoldOut'' [''address'', ''uint256'', ''uint256'']))"
  "first_named (factoryAbi sample_contracts) ''NewContractDeployed'' =
     Some (JsonFragment
       (event_entry ''NewContractDeployed'' [''address'', ''uint256'', ''address'', ''string'']))"
  "first_named (diamondFactoryAbi sample_contracts) ''DeployedContract'' =
     Some (JsonFragment
       (event_entry ''DeployedContract'' [''address'', ''uint256'', ''address'', ''string'']))"
  "first_named (diamondFactoryAbi sample_contracts) ''CreatedCollection'' =
     Some (JsonFragment
       (event_entry ''CreatedCollection'' [''uint256'', ''string'', ''uint256'', ''uint256'']))"
  "first_named (diamondFactoryAbi sample_contracts) ''RoleGranted'' =
     Some (JsonFragment role_granted_indexed)"
  "first_named (classicDeprecatedEvents sample_contracts) ''TokenMinted'' =
     Some (JsonFragment
       (event_entry ''TokenMinted'' [''address'', ''uint256'', ''uint256'', ''uint256'']))"
  "first_named (creditHandlerEvents sample_contracts) ''ReceivedTokens'' = None"
  by (simp_all add: first_named_def sample_contracts_def event_entry_def
      role_granted_indexed_def)

lemma getContractEvents_unfold:
  "getContractEvents u a d =
     fst (foldl (register_event u a d) (Map.empty, []) (utils_events u a))"
  by (simp add: getContractEvents_def getContractEvents_run_def)

lemma sample_text_id: "utils_id ethers_model s = s"
  by (simp add: ethers_model_def text_id_def)

lemma sample_erc721:
  "getContractEvents ethers_model (erc721Abi sample_contracts) d =
     [''ProductCreated(uint256,string,uint256,uint256)'' \<mapsto>
        entry_for (JsonFragment
          (event_entry ''ProductCreated'' [''uint256'', ''string'', ''uint256'', ''uint256'']))
          d ''ProductCreated(uint256,string,uint256,uint256)'',
      ''RoleGranted(bytes32,address,address)'' \<mapsto>
        entry_for (JsonFragment (event_entry ''RoleGranted'' [''bytes32'', ''address'', ''address'']))
          d ''RoleGranted(bytes32,address,address)'']"
  by (simp add: getContractEvents_unfold sample_events register_event_find sample_names
      sample_first_named sample_text_id)

lemma sample_minter:
  "getContractEvents ethers_model (minterAbi sample_contracts) d =
     [''RoleGranted(bytes32,address,address)'' \<mapsto>
        entry_for (JsonFragment (event_entry ''RoleGranted'' [''bytes32'', ''address'', ''address'']))
          d ''RoleGranted(bytes32,address,address)'',
      ''SoldOut(address,uint256,uint256)'' \<mapsto>
        entry_for (JsonFragment (event_entry ''SoldOut'' [''address'', ''uint256'', ''uint256'']))
          d ''SoldOut(address,uint256,uint256)'']"
  by (simp add: getContractEvents_unfold sample_events register_event_find sample_names
      sample_first_named sample_text_id)

lemma sample_factory:
  "getContractEvents ethers_model (factoryAbi sample_contracts) d =
     [''NewContractDeployed(address,uint256,address,string)'' \<mapsto>
        entry_for (JsonFragment
          (event_entry ''NewContractDeployed'' [''address'', ''uint256'', ''address'', ''string'']))
          d ''NewContractDeployed(address,uint256,address,string)'']"
  by (simp add: getContractEvents_unfold sample_events register_event_find sample_names
      sample_first_named sample_text_id)

lemma sample_diamondFactory:
  "getContractEvents ethers_model (diamondFactoryAbi sample_contracts) d =
     [''DeployedContract(address,uint256,address,string)'' \<mapsto>
        entry_for (JsonFragment
          (event_entry ''DeployedContract'' [''address'', ''uint256'', ''address'', ''string'']))
          d ''DeployedContract(address,uint256,address,string)'',
      ''CreatedCollection(uint256,string,uint256,uint256)'' \<mapsto>
        entry_for (JsonFragment
          (event_entry ''CreatedCollection'' [''uint256'', ''string'', ''uint256'', ''uint256'']))
          d ''CreatedCollection(uint256,string,uint256,uint256)'',
      ''RoleGranted(bytes32,address,address)'' \<mapsto>
        entry_for (JsonFragment role_granted_indexed)
          d ''RoleGranted(bytes32,address,address)'']"
  by (simp add: getContractEvents_unfold sample_events register_event_find sample_names
      sample_first_named sample_text_id)

lemma sample_classicDeprecated:
  "getContractEvents ethers_model (classicDeprecatedEvents sample_contracts) d =
     [''TokenMinted(address,uint256,uint256,uint256)'' \<mapsto>
        entry_for (JsonFragment
          (event_entry ''TokenMinted'' [''address'', ''uint256'', ''uint256'', ''uint256'']))
          d ''TokenMinted(address,uint256,uint256,uint256)'',
      ''TokenMinted(address,address,uint256,uint256,uint256)'' \<mapsto>
        entry_for (JsonFragment
          (event_entry ''TokenMinted'' [''address'', ''uint256'', ''uint256'', ''uint256'']))
          d ''TokenMinted(address,address,uint256,uint256,uint256)'']"
  by (simp add: getContractEvents_unfold sample_events register_event_find sample_names
      sample_first_named sample_text_id)

lemma sample_empty:
  "getContractEvents ethers_model (diamondMarketplaceAbi sample_contracts) d = Map.empty"
  "getContractEvents ethers_model (diamondDeprecatedEvents sample_contracts) d = Map.empty"
  "getContractEvents ethers_model (resaleMarketplaceEvents sample_contracts) d = Map.empty"
  "getContractEvents ethers_model (creditHandlerEvents sample_contracts) d = Map.empty"
  by (simp_all add: getContractEvents_unfold sample_events register_event_find sample_names
      sample_first_named sample_text_id)

lemmas sample_parts =
  sample_erc721 sample_minter sample_factory sample_diamondFactory sample_classicDeprecated
  sample_empty

lemma sample_role_granted:
  "masterMapping ethers_model sample_contracts ''RoleGranted(bytes32,address,address)'' =
     Some (entry_for (JsonFragment role_granted_indexed)
       True ''RoleGranted(bytes32,address,address)'')"
  by (simp add: masterMapping_def sample_parts map_add_Some_iff)

lemma sample_order:
  "(erc721Abi sample_contracts, False) \<in> set (build_order sample_contracts)"
  "(minterAbi sample_contracts, False) \<in> set (build_order sample_contracts)"
  "(factoryAbi sample_contracts, False) \<in> set (build_order sample_contracts)"
  "(diamondFactoryAbi sample_contracts, True) \<in> set (build_order sample_contracts)"
  "(classicDeprecatedEvents sample_contracts, False) \<in> set (build_order sample_contracts)"
  "(creditHandlerEvents sample_contracts, True) \<in> set (build_order sample_contracts)"
  by (simp_all add: build_order_def)

lemma sample_events_at:
  "events_at u c 0 = getContractEvents u (erc721Abi c) False"
  "events_at u c 1 = getContractEvents u (minterAbi c) False"
  "events_at u c 2 = getContractEvents u (factoryAbi c) False"
  "events_at u c 3 = getContractEvents u (diamondFactoryAbi c) True"
  "events_at u c 4 = getContractEvents u (diamondMarketplaceAbi c) True"
  "events_at u c 5 = getContractEvents u (classicDeprecatedEvents c) False"
  "events_at u c 6 = getContractEvents u (diamondDeprecatedEvents c) True"
  "events_at u c 7 = getContractEvents u (resaleMarketplaceEvents c) False"
  "events_at u c 8 = getContractEvents u (creditHandlerEvents c) True"
  by (simp_all add: events_at_def build_order_def)

lemma sample_after_diamondFactory:
  assumes "3 < l" and "l < length (build_order sample_contracts)"
  shows "events_at ethers_model sample_contracts l ''RoleGranted(bytes32,address,address)'' = None"
proof -
  from assms have "l = 4 \<or> l = 5 \<or> l = 6 \<or> l = 7 \<or> l = 8"
    by (simp add: build_order_length) arith
  then show ?thesis
    by (elim disjE) (simp_all add: sample_events_at sample_parts)
qed

lemma sample_token_minted:
  "masterMapping ethers_model sample_contracts
     ''TokenMinted(address,address,uint256,uint256,uint256)'' =
     Some (entry_for
       (JsonFragment
          (event_entry ''TokenMinted'' [''address'', ''uint256'', ''uint256'', ''uint256'']))
       False ''TokenMinted(address,address,uint256,uint256,uint256)'')"
  by (simp add: masterMapping_def sample_parts map_add_Some_iff)

lemma insertionMapping_SoldOut: "insertionMapping ''SoldOut'' = None"
  by (simp add: insertionMapping_def insertionMapping_own_def object_prototype_keys_def)

subsection \<open>The claims about the registry\<close>

text \<open>
  Claim C1, amended. When the calls of \<open>getContractEvents\<close> for two ABIs of the
  corpus, at positions \<open>i < j\<close> of the build order, both register an entry under the
  identifier \<open>k\<close>, the load of the module does
  not abort: it delivers the registry, \<open>k\<close> is bound in it, and its entry is the one
  that one of the ABIs of the corpus produced for \<open>k\<close>. No conflict is detected.
\<close>
theorem shared_identifier_is_merged:
  assumes "i < j" and "j < length (build_order c)"
    and "k \<in> dom (events_at u c i)" and "k \<in> dom (events_at u c j)"
  shows "load_module u c = Inr (masterMapping u c, console_of u (build_order c)) \<and>
         k \<in> dom (masterMapping u c) \<and>
         (\<exists>l<length (build_order c). k \<in> dom (events_at u c l) \<and>
            masterMapping u c k = events_at u c l k)"
proof -
  have dom: "k \<in> dom (masterMapping u c)"
    using assms(2,4) by (rule events_at_member)
  then obtain e where e: "masterMapping u c k = Some e" by blast
  from masterMapping_origin [OF e] obtain p where
    p: "p \<in> set (build_order c)" "getContractEvents u (fst p) (snd p) k = Some e" by blast
  from p(1) obtain l where l: "l < length (build_order c)" "build_order c ! l = p"
    by (auto simp: in_set_conv_nth)
  have "events_at u c l k = Some e" using p(2) l(2) by (simp add: events_at_def)
  with l(1) e dom show ?thesis by (auto simp: load_module_def)
qed

text \<open>
  Claim C8. When two ABIs of the corpus, at positions \<open>i < j\<close> of the build order,
  produce entries for the same identifier \<open>k\<close>, and no ABI after position \<open>j\<close>
  produces one, the load completes without error and the registry holds for \<open>k\<close>
  the entry produced from the ABI at position \<open>j\<close>: the last write wins.
\<close>
theorem later_abi_overwrites:
  assumes "i < j" and "j < length (build_order c)"
    and "k \<in> dom (events_at u c i)"
    and "events_at u c j k = Some e"
    and "\<forall>l. j < l \<and> l < length (build_order c) \<longrightarrow> events_at u c l k = None"
  shows "load_module u c = Inr (masterMapping u c, console_of u (build_order c)) \<and>
         masterMapping u c k = Some e"
proof -
  let ?ms = "map (\<lambda>p. getContractEvents u (fst p) (snd p)) (build_order c)"
  have "foldl (++) Map.empty ?ms k = Some e"
  proof (rule foldl_map_add_last [of j])
    show "j < length ?ms" using assms(2) by simp
    show "(?ms ! j) k = Some e" using assms(2,4) by (simp add: events_at_def)
    show "\<forall>l. j < l \<and> l < length ?ms \<longrightarrow> (?ms ! l) k = None"
      using assms(5) by (simp add: events_at_def)
  qed
  then show ?thesis by (simp add: masterMapping_foldl load_module_def)
qed

text \<open>
  Claim C2, amended. When the interface derives a signature from an ABI of the corpus
  and no entry of that ABI has a \<open>name\<close> equal to the name of the event, the load of
  the module does not abort: it delivers the registry, the line "Couldn't find ABI for
  signature ..." is written to the console, and the call for that ABI registers no
  entry with that signature.
\<close>
theorem unmatched_signature_is_logged:
  assumes "p \<in> set (build_order c)"
    and "sig \<in> set (utils_events u (fst p))"
    and "\<forall>item\<in>set (fst p). entry_name item \<noteq> Some (event_name sig)"
  shows "load_module u c = Inr (masterMapping u c, console_of u (build_order c)) \<and>
         ''Couldn't find ABI for signature '' @ sig \<in> set (console_of u (build_order c)) \<and>
         (\<forall>k e. getContractEvents u (fst p) (snd p) k = Some e \<longrightarrow> signature e \<noteq> sig)"
proof -
  have none: "first_named (fst p) (event_name sig) = None"
    using assms(3) by (simp add: first_named_None_iff)
  have "''Couldn't find ABI for signature '' @ sig
          \<in> set (snd (getContractEvents_run u (fst p) (snd p)))"
    unfolding getContractEvents_run_def using assms(2) none by (rule fold_register_console)
  then have log: "''Couldn't find ABI for signature '' @ sig \<in> set (console_of u (build_order c))"
    using assms(1) console_of_member [of "fst p" "snd p"] by simp
  have "signature e \<noteq> sig" if "getContractEvents u (fst p) (snd p) k = Some e" for k e
  proof -
    from getContractEvents_origin [OF that] obtain s x where
      "first_named (fst p) (event_name s) = Some x" "e = entry_for x (snd p) s" by blast
    with none show ?thesis by (auto simp: entry_for_def)
  qed
  with log show ?thesis by (simp add: load_module_def)
qed

text \<open>
  Claim C3. Every entry of the registry stores a list of exactly one ABI entry, and
  that entry is, in an ABI of the corpus that declares the signature of the entry, the
  first one in the order of the array whose name equals the name of the event (the
  text of the signature before the parenthesis); every entry before it in that ABI
  has another name.
\<close>
theorem entry_holds_first_named_fragment:
  assumes "masterMapping u c k = Some e"
  shows "length (abi e) = 1 \<and>
         (\<exists>p\<in>set (build_order c). \<exists>i<length (fst p).
            signature e \<in> set (utils_events u (fst p)) \<and>
            abi e = [fst p ! i] \<and>
            entry_name (fst p ! i) = Some (event_name (signature e)) \<and>
            (\<forall>j<i. entry_name (fst p ! j) \<noteq> Some (event_name (signature e))))"
proof -
  from masterMapping_entry [OF assms] obtain p sig x where
    p: "p \<in> set (build_order c)" and sig: "sig \<in> set (utils_events u (fst p))" and
    x: "first_named (fst p) (event_name sig) = Some x" and e: "e = entry_for x (snd p) sig"
    by blast
  from first_named_SomeD [OF x] obtain i where
    i: "i < length (fst p)" "x = fst p ! i" "entry_name x = Some (event_name sig)"
       "\<forall>j<i. entry_name (fst p ! j) \<noteq> Some (event_name sig)"
    by blast
  have s: "signature e = sig" and a: "abi e = [x]" using e by (simp_all add: entry_for_def)
  show ?thesis
    using p sig i s a by auto
qed

text \<open>
  Claim C4. The hasher is a function of the text: equal texts have equal identifiers.
  Every entry of the registry is stored under the identifier obtained by hashing the
  signature text that the entry itself holds.
\<close>
theorem entry_keyed_by_hash_of_its_signature:
  "(s = t \<longrightarrow> utils_id u s = utils_id u t) \<and>
   (masterMapping u c k = Some e \<longrightarrow> k = utils_id u (signature e))"
proof -
  have "k = utils_id u (signature e)" if "masterMapping u c k = Some e"
    using masterMapping_entry [OF that] by (auto simp: entry_for_def)
  then show ?thesis by simp
qed

lemma insertionMapping_collection:
  "insertionMapping ''ProductCreated'' = Some insertCollection"
  "insertionMapping ''CreatedCollection'' = Some insertCollection"
  by (simp_all add: insertionMapping_def insertionMapping_own_def)

lemma insertionMapping_contract:
  "insertionMapping ''NewContractDeployed'' = Some insertContract"
  "insertionMapping ''DeployedContract'' = Some insertContract"
  by (simp_all add: insertionMapping_def insertionMapping_own_def)

text \<open>
  Claim C5. Let the hasher have no collision among the signature texts of the corpus.
  When an ABI of the corpus declares the classic event \<open>ProductCreated\<close> and an ABI
  declares the diamond event \<open>CreatedCollection\<close>, the registry holds two distinct
  entries for them, under different identifiers, and both entries have the handler
  \<open>insertCollection\<close>. The same holds for \<open>NewContractDeployed\<close> and
  \<open>DeployedContract\<close> with the handler \<open>insertContract\<close>.
\<close>
theorem generations_share_handler:
  assumes inj: "inj_on (utils_id u) (corpus_signatures u c)"
    and names: "(n1 = ''ProductCreated'' \<and> n2 = ''CreatedCollection'' \<and> f = insertCollection) \<or>
                (n1 = ''NewContractDeployed'' \<and> n2 = ''DeployedContract'' \<and> f = insertContract)"
    and p1: "p1 \<in> set (build_order c)" and s1: "s1 \<in> set (utils_events u (fst p1))"
    and n1: "event_name s1 = n1" and x1: "first_named (fst p1) n1 = Some x1"
    and p2: "p2 \<in> set (build_order c)" and s2: "s2 \<in> set (utils_events u (fst p2))"
    and n2: "event_name s2 = n2" and x2: "first_named (fst p2) n2 = Some x2"
  shows "\<exists>e1 e2. masterMapping u c (utils_id u s1) = Some e1 \<and>
                 masterMapping u c (utils_id u s2) = Some e2 \<and>
                 utils_id u s1 \<noteq> utils_id u s2 \<and> e1 \<noteq> e2 \<and>
                 signature e1 = s1 \<and> signature e2 = s2 \<and>
                 operation e1 = Some f \<and> operation e2 = Some f"
proof -
  have x1': "first_named (fst p1) (event_name s1) = Some x1" using x1 n1 by simp
  have x2': "first_named (fst p2) (event_name s2) = Some x2" using x2 n2 by simp
  from masterMapping_registered [OF inj p1 s1 x1'] obtain q1 y1 where
    y1: "first_named (fst q1) (event_name s1) = Some y1"
    and e1: "masterMapping u c (utils_id u s1) = Some (entry_for y1 (snd q1) s1)"
    by blast
  from masterMapping_registered [OF inj p2 s2 x2'] obtain q2 y2 where
    y2: "first_named (fst q2) (event_name s2) = Some y2"
    and e2: "masterMapping u c (utils_id u s2) = Some (entry_for y2 (snd q2) s2)"
    by blast
  from first_named_SomeD [OF y1] have "entry_name y1 = Some n1" using n1 by blast
  then have o1: "operation (entry_for y1 (snd q1) s1) = insertionMapping n1"
    by (rule entry_for_operation)
  from first_named_SomeD [OF y2] have "entry_name y2 = Some n2" using n2 by blast
  then have o2: "operation (entry_for y2 (snd q2) s2) = insertionMapping n2"
    by (rule entry_for_operation)
  have f1: "insertionMapping n1 = Some f"
    using names insertionMapping_collection(1) insertionMapping_contract(1) by blast
  have f2: "insertionMapping n2 = Some f"
    using names insertionMapping_collection(2) insertionMapping_contract(2) by blast
  have "n1 \<noteq> n2" using names by auto
  then have ne: "s1 \<noteq> s2" using n1 n2 by blast
  have "s1 \<in> corpus_signatures u c"
    using p1 s1 unfolding corpus_signatures_def by blast
  moreover have "s2 \<in> corpus_signatures u c"
    using p2 s2 unfolding corpus_signatures_def by blast
  ultimately have k: "utils_id u s1 \<noteq> utils_id u s2"
    using inj ne by (auto dest: inj_onD)
  have sg: "signature (entry_for y1 (snd q1) s1) = s1" "signature (entry_for y2 (snd q2) s2) = s2"
    by (simp_all add: entry_for_def)
  then have d: "entry_for y1 (snd q1) s1 \<noteq> entry_for y2 (snd q2) s2"
    using ne by metis
  show ?thesis
    using e1 e2 k d sg o1 o2 f1 f2 by simp
qed

text \<open>
  Claim C6, amended. Let the hasher have no collision among the signature texts of the
  corpus. For an event of an ABI of the corpus that has an entry with the name of the
  event, and for which the read \<open>insertionMapping[name]\<close> yields \<open>undefined\<close> (the
  name is no key of the table and no property an object inherits), the load of the
  module succeeds and the registry holds an entry under the identifier of the event:
  its \<open>operation\<close> is empty, its \<open>signature\<close> is the signature text of the event,
  its \<open>abi\<close> is the one-element list of the first entry with the name of the event in
  an ABI of the corpus that declares it, and \<open>diamondEvent\<close> is the flag of that ABI.
\<close>
theorem event_without_handler_is_registered:
  assumes inj: "inj_on (utils_id u) (corpus_signatures u c)"
    and p: "p \<in> set (build_order c)" and sig: "sig \<in> set (utils_events u (fst p))"
    and x: "first_named (fst p) (event_name sig) = Some x"
    and unbound: "insertionMapping (event_name sig) = None"
  shows "load_module u c = Inr (masterMapping u c, console_of u (build_order c)) \<and>
         (\<exists>e. masterMapping u c (utils_id u sig) = Some e \<and>
              operation e = None \<and>
              signature e = sig \<and>
              (\<exists>q\<in>set (build_order c). \<exists>y.
                 sig \<in> set (utils_events u (fst q)) \<and>
                 first_named (fst q) (event_name sig) = Some y \<and>
                 abi e = [y] \<and> diamondEvent e = snd q))"
proof -
  from masterMapping_registered [OF inj p sig x] obtain q y where
    q: "q \<in> set (build_order c)" "sig \<in> set (utils_events u (fst q))" and
    y: "first_named (fst q) (event_name sig) = Some y" and
    e: "masterMapping u c (utils_id u sig) = Some (entry_for y (snd q) sig)"
    by blast
  have "operation (entry_for y (snd q) sig) = insertionMapping (event_name sig)"
    using first_named_SomeD [OF y] by (auto intro: entry_for_operation)
  then have "operation (entry_for y (snd q) sig) = None" using unbound by simp
  moreover have "signature (entry_for y (snd q) sig) = sig"
    "abi (entry_for y (snd q) sig) = [y]" "diamondEvent (entry_for y (snd q) sig) = snd q"
    by (simp_all add: entry_for_def)
  ultimately show ?thesis
    using e q y by (auto simp: load_module_def)
qed

subsection \<open>The claims on the sample corpus\<close>

text \<open>
  Claim C1 as stated fails on the sample: the token ABI (position 0) and the diamond
  factory ABI (position 3) both declare \<open>RoleGranted(bytes32,address,address)\<close>,
  with different entries; the load does not abort, and the registry holds the entry of
  the diamond factory.
\<close>
theorem shared_identifier_no_abort:
  "events_at ethers_model sample_contracts 0 ''RoleGranted(bytes32,address,address)'' =
     Some (entry_for
       (JsonFragment (event_entry ''RoleGranted'' [''bytes32'', ''address'', ''address'']))
       False ''RoleGranted(bytes32,address,address)'') \<and>
   events_at ethers_model sample_contracts 3 ''RoleGranted(bytes32,address,address)'' =
     Some (entry_for
       (JsonFragment role_granted_indexed)
       True ''RoleGranted(bytes32,address,address)'') \<and>
   events_at ethers_model sample_contracts 0 ''RoleGranted(bytes32,address,address)'' \<noteq>
     events_at ethers_model sample_contracts 3 ''RoleGranted(bytes32,address,address)'' \<and>
   \<not> isl (load_module ethers_model sample_contracts) \<and>
   load_module ethers_model sample_contracts \<noteq> Inl RegistryConflict \<and>
   masterMapping ethers_model sample_contracts ''RoleGranted(bytes32,address,address)'' =
     Some (entry_for
       (JsonFragment role_granted_indexed)
       True ''RoleGranted(bytes32,address,address)'')"
  by (simp add: sample_events_at sample_parts sample_role_granted load_module_def entry_for_def)

theorem shared_identifier_is_merged_witness:
  "load_module ethers_model sample_contracts =
     Inr (masterMapping ethers_model sample_contracts,
          console_of ethers_model (build_order sample_contracts)) \<and>
   ''RoleGranted(bytes32,address,address)'' \<in> dom (masterMapping ethers_model sample_contracts) \<and>
   (\<exists>l<length (build_order sample_contracts).
      ''RoleGranted(bytes32,address,address)'' \<in> dom (events_at ethers_model sample_contracts l) \<and>
      masterMapping ethers_model sample_contracts ''RoleGranted(bytes32,address,address)'' =
        events_at ethers_model sample_contracts l ''RoleGranted(bytes32,address,address)'')"
proof (rule shared_identifier_is_merged [of 0 3])
  show "(0::nat) < 3" by simp
  show "3 < length (build_order sample_contracts)" by (simp add: build_order_length)
  show "''RoleGranted(bytes32,address,address)'' \<in> dom (events_at ethers_model sample_contracts 0)"
    by (simp add: sample_events_at sample_parts)
  show "''RoleGranted(bytes32,address,address)'' \<in> dom (events_at ethers_model sample_contracts 3)"
    by (simp add: sample_events_at sample_parts)
qed

theorem later_abi_overwrites_witness:
  "load_module ethers_model sample_contracts =
     Inr (masterMapping ethers_model sample_contracts,
          console_of ethers_model (build_order sample_contracts)) \<and>
   masterMapping ethers_model sample_contracts ''RoleGranted(bytes32,address,address)'' =
     Some (entry_for
       (JsonFragment role_granted_indexed)
       True ''RoleGranted(bytes32,address,address)'')"
proof (rule later_abi_overwrites [of 0 3])
  show "(0::nat) < 3" by simp
  show "3 < length (build_order sample_contracts)" by (simp add: build_order_length)
  show "''RoleGranted(bytes32,address,address)'' \<in> dom (events_at ethers_model sample_contracts 0)"
    by (simp add: sample_events_at sample_parts)
  show "events_at ethers_model sample_contracts 3 ''RoleGranted(bytes32,address,address)'' =
     Some (entry_for
       (JsonFragment role_granted_indexed)
       True ''RoleGranted(bytes32,address,address)'')"
    by (simp add: sample_events_at sample_parts)
  show "\<forall>l. 3 < l \<and> l < length (build_order sample_contracts) \<longrightarrow>
          events_at ethers_model sample_contracts l ''RoleGranted(bytes32,address,address)'' = None"
    using sample_after_diamondFactory by blast
qed

text \<open>
  Claim C2 as stated fails on the sample: the credit handler events are given in the
  human-readable format, so no entry has a \<open>name\<close>; the interface derives the
  signature of \<open>ReceivedTokens\<close>, the call writes one line to the console and returns
  an empty mapping, and the load does not abort.
\<close>
theorem missing_fragment_no_abort:
  "(creditHandlerEvents sample_contracts, True) \<in> set (build_order sample_contracts) \<and>
   ''ReceivedTokens(address,uint256,uint256)''
      \<in> set (utils_events ethers_model (creditHandlerEvents sample_contracts)) \<and>
   first_named (creditHandlerEvents sample_contracts)
      (event_name ''ReceivedTokens(address,uint256,uint256)'') = None \<and>
   \<not> isl (load_module ethers_model sample_contracts) \<and>
   load_module ethers_model sample_contracts \<noteq> Inl MissingFragment \<and>
   getContractEvents_run ethers_model (creditHandlerEvents sample_contracts) True =
     (Map.empty,
      [''Couldn't find ABI for signature ReceivedTokens(address,uint256,uint256)''])"
  by (simp add: sample_order sample_events sample_names sample_first_named load_module_def
      getContractEvents_run_def register_event_find)

theorem unmatched_signature_is_logged_witness:
  "load_module ethers_model sample_contracts =
     Inr (masterMapping ethers_model sample_contracts,
          console_of ethers_model (build_order sample_contracts)) \<and>
   ''Couldn't find ABI for signature ReceivedTokens(address,uint256,uint256)''
      \<in> set (console_of ethers_model (build_order sample_contracts)) \<and>
   \<not> (\<exists>k e. getContractEvents ethers_model (creditHandlerEvents sample_contracts) True k = Some e
      \<and> signature e = ''ReceivedTokens(address,uint256,uint256)'')"
proof -
  have p: "(creditHandlerEvents sample_contracts, True) \<in> set (build_order sample_contracts)"
    by (rule sample_order)
  have s: "''ReceivedTokens(address,uint256,uint256)''
      \<in> set (utils_events ethers_model (fst (creditHandlerEvents sample_contracts, True)))"
    by (simp add: sample_events)
  have n: "\<forall>item\<in>set (fst (creditHandlerEvents sample_contracts, True)).
      entry_name item \<noteq> Some (event_name ''ReceivedTokens(address,uint256,uint256)'')"
    by (simp add: sample_contracts_def)
  from unmatched_signature_is_logged [OF p s n] show ?thesis by simp
qed

theorem entry_holds_first_named_fragment_witness:
  "abi (entry_for
       (JsonFragment
          (event_entry ''TokenMinted'' [''address'', ''uint256'', ''uint256'', ''uint256'']))
       False ''TokenMinted(address,address,uint256,uint256,uint256)'') =
     [classicDeprecatedEvents sample_contracts ! 0] \<and>
   length (abi (entry_for
       (JsonFragment
          (event_entry ''TokenMinted'' [''address'', ''uint256'', ''uint256'', ''uint256'']))
       False ''TokenMinted(address,address,uint256,uint256,uint256)'')) = 1 \<and>
   (\<exists>p\<in>set (build_order sample_contracts). \<exists>i<length (fst p).
      ''TokenMinted(address,address,uint256,uint256,uint256)''
         \<in> set (utils_events ethers_model (fst p)) \<and>
      [JsonFragment
          (event_entry ''TokenMinted'' [''address'', ''uint256'', ''uint256'', ''uint256''])] =
        [fst p ! i] \<and>
      entry_name (fst p ! i) = Some ''TokenMinted'' \<and>
      (\<forall>j<i. entry_name (fst p ! j) \<noteq> Some ''TokenMinted''))"
  using entry_holds_first_named_fragment [OF sample_token_minted]
  by (simp add: entry_for_def sample_names sample_contracts_def)

theorem entry_keyed_by_hash_of_its_signature_witness:
  "utils_id ethers_model ''RoleGranted(bytes32,address,address)'' =
     utils_id ethers_model ''RoleGranted(bytes32,address,address)'' \<and>
   ''RoleGranted(bytes32,address,address)'' =
     utils_id ethers_model (signature (entry_for
       (JsonFragment role_granted_indexed)
       True ''RoleGranted(bytes32,address,address)''))"
  using entry_keyed_by_hash_of_its_signature
    [of "''RoleGranted(bytes32,address,address)''" "''RoleGranted(bytes32,address,address)''"
        ethers_model sample_contracts "''RoleGranted(bytes32,address,address)''"
        "entry_for
           (JsonFragment role_granted_indexed)
           True ''RoleGranted(bytes32,address,address)''"]
    sample_role_granted
  by simp

theorem generations_share_handler_witness:
  "(\<exists>e1 e2.
      masterMapping ethers_model sample_contracts
        (utils_id ethers_model ''ProductCreated(uint256,string,uint256,uint256)'') = Some e1 \<and>
      masterMapping ethers_model sample_contracts
        (utils_id ethers_model ''CreatedCollection(uint256,string,uint256,uint256)'') = Some e2 \<and>
      utils_id ethers_model ''ProductCreated(uint256,string,uint256,uint256)'' \<noteq>
        utils_id ethers_model ''CreatedCollection(uint256,string,uint256,uint256)'' \<and>
      e1 \<noteq> e2 \<and>
      signature e1 = ''ProductCreated(uint256,string,uint256,uint256)'' \<and>
      signature e2 = ''CreatedCollection(uint256,string,uint256,uint256)'' \<and>
      operation e1 = Some insertCollection \<and> operation e2 = Some insertCollection) \<and>
   (\<exists>e1 e2.
      masterMapping ethers_model sample_contracts
        (utils_id ethers_model ''NewContractDeployed(address,uint256,address,string)'') = Some e1 \<and>
      masterMapping ethers_model sample_contracts
        (utils_id ethers_model ''DeployedContract(address,uint256,address,string)'') = Some e2 \<and>
      utils_id ethers_model ''NewContractDeployed(address,uint256,address,string)'' \<noteq>
        utils_id ethers_model ''DeployedContract(address,uint256,address,string)'' \<and>
      e1 \<noteq> e2 \<and>
      signature e1 = ''NewContractDeployed(address,uint256,address,string)'' \<and>
      signature e2 = ''DeployedContract(address,uint256,address,string)'' \<and>
      operation e1 = Some insertContract \<and> operation e2 = Some insertContract)"
proof
  show "\<exists>e1 e2.
      masterMapping ethers_model sample_contracts
        (utils_id ethers_model ''ProductCreated(uint256,string,uint256,uint256)'') = Some e1 \<and>
      masterMapping ethers_model sample_contracts
        (utils_id ethers_model ''CreatedCollection(uint256,string,uint256,uint256)'') = Some e2 \<and>
      utils_id ethers_model ''ProductCreated(uint256,string,uint256,uint256)'' \<noteq>
        utils_id ethers_model ''CreatedCollection(uint256,string,uint256,uint256)'' \<and>
      e1 \<noteq> e2 \<and>
      signature e1 = ''ProductCreated(uint256,string,uint256,uint256)'' \<and>
      signature e2 = ''CreatedCollection(uint256,string,uint256,uint256)'' \<and>
      operation e1 = Some insertCollection \<and> operation e2 = Some insertCollection"
  proof (rule generations_share_handler
      [OF inj_on_text_id _ sample_order(1) _ _ _ sample_order(4)])
    show "(''ProductCreated'' = ''ProductCreated'' \<and> ''CreatedCollection'' = ''CreatedCollection''
            \<and> insertCollection = insertCollection) \<or>
          (''ProductCreated'' = ''NewContractDeployed'' \<and> ''CreatedCollection'' = ''DeployedContract''
            \<and> insertCollection = insertContract)"
      by simp
    show "''ProductCreated(uint256,string,uint256,uint256)''
        \<in> set (utils_events ethers_model (fst (erc721Abi sample_contracts, False)))"
      by (simp add: sample_events)
    show "event_name ''ProductCreated(uint256,string,uint256,uint256)'' = ''ProductCreated''"
      by (rule sample_names)
    show "first_named (fst (erc721Abi sample_contracts, False)) ''ProductCreated'' =
      Some (JsonFragment
        (event_entry ''ProductCreated'' [''uint256'', ''string'', ''uint256'', ''uint256'']))"
      by (simp add: sample_first_named)
    show "''CreatedCollection(uint256,string,uint256,uint256)''
        \<in> set (utils_events ethers_model (fst (diamondFactoryAbi sample_contracts, True)))"
      by (simp add: sample_events)
    show "event_name ''CreatedCollection(uint256,string,uint256,uint256)'' = ''CreatedCollection''"
      by (rule sample_names)
    show "first_named (fst (diamondFactoryAbi sample_contracts, True)) ''CreatedCollection'' =
      Some (JsonFragment
        (event_entry ''CreatedCollection'' [''uint256'', ''string'', ''uint256'', ''uint256'']))"
      by (simp add: sample_first_named)
  qed
  show "\<exists>e1 e2.
      masterMapping ethers_model sample_contracts
        (utils_id ethers_model ''NewContractDeployed(address,uint256,address,string)'') = Some e1 \<and>
      masterMapping ethers_model sample_contracts
        (utils_id ethers_model ''DeployedContract(address,uint256,address,string)'') = Some e2 \<and>
      utils_id ethers_model ''NewContractDeployed(address,uint256,address,string)'' \<noteq>
        utils_id ethers_model ''DeployedContract(address,uint256,address,string)'' \<and>
      e1 \<noteq> e2 \<and>
      signature e1 = ''NewContractDeployed(address,uint256,address,string)'' \<and>
      signature e2 = ''DeployedContract(address,uint256,address,string)'' \<and>
      operation e1 = Some insertContract \<and> operation e2 = Some insertContract"
  proof (rule generations_share_handler
      [OF inj_on_text_id _ sample_order(3) _ _ _ sample_order(4)])
    show "(''NewContractDeployed'' = ''ProductCreated'' \<and> ''DeployedContract'' = ''CreatedCollection''
            \<and> insertContract = insertCollection) \<or>
          (''NewContractDeployed'' = ''NewContractDeployed'' \<and>
           ''DeployedContract'' = ''DeployedContract'' \<and> insertContract = insertContract)"
      by simp
    show "''NewContractDeployed(address,uint256,address,string)''
        \<in> set (utils_events ethers_model (fst (factoryAbi sample_contracts, False)))"
      by (simp add: sample_events)
    show "event_name ''NewContractDeployed(address,uint256,address,string)'' =
        ''NewContractDeployed''"
      by (rule sample_names)
    show "first_named (fst (factoryAbi sample_contracts, False)) ''NewContractDeployed'' =
      Some (JsonFragment
        (event_entry ''NewContractDeployed'' [''address'', ''uint256'', ''address'', ''string'']))"
      by (simp add: sample_first_named)
    show "''DeployedContract(address,uint256,address,string)''
        \<in> set (utils_events ethers_model (fst (diamondFactoryAbi sample_contracts, True)))"
      by (simp add: sample_events)
    show "event_name ''DeployedContract(address,uint256,address,string)'' = ''DeployedContract''"
      by (rule sample_names)
    show "first_named (fst (diamondFactoryAbi sample_contracts, True)) ''DeployedContract'' =
      Some (JsonFragment
        (event_entry ''DeployedContract'' [''address'', ''uint256'', ''address'', ''string'']))"
      by (simp add: sample_first_named)
  qed
qed

lemma prototype_events:
  "utils_events ethers_model (erc721Abi prototype_contracts) = [''toString(uint256)'']"
  "utils_events ethers_model (minterAbi prototype_contracts) =
     [''SoldOut(address,uint256,uint256)'']"
  "utils_events ethers_model (factoryAbi prototype_contracts) = []"
  "utils_events ethers_model (diamondFactoryAbi prototype_contracts) = []"
  "utils_events ethers_model (diamondMarketplaceAbi prototype_contracts) = []"
  "utils_events ethers_model (classicDeprecatedEvents prototype_contracts) = []"
  "utils_events ethers_model (diamondDeprecatedEvents prototype_contracts) = []"
  "utils_events ethers_model (resaleMarketplaceEvents prototype_contracts) = []"
  "utils_events ethers_model (creditHandlerEvents prototype_contracts) = []"
  by (simp_all add: ethers_model_def interface_events_def prototype_contracts_def
      event_entry_def event_signature_def)

lemma prototype_first_named:
  "first_named (erc721Abi prototype_contracts) (event_name ''toString(uint256)'') =
     Some (JsonFragment (event_entry ''toString'' [''uint256'']))"
  "first_named (minterAbi prototype_contracts)
     (event_name ''SoldOut(address,uint256,uint256)'') = None"
  by (simp_all add: first_named_def event_name_def prototype_contracts_def event_entry_def)

lemma insertionMapping_toString: "insertionMapping ''toString'' = Some (inherited ''toString'')"
  by (simp add: insertionMapping_def insertionMapping_own_def object_prototype_keys_def)

lemma prototype_parts:
  "getContractEvents ethers_model (erc721Abi prototype_contracts) d =
     [''toString(uint256)'' \<mapsto>
        \<lparr>signature = ''toString(uint256)'',
         abi = [JsonFragment (event_entry ''toString'' [''uint256''])],
         diamondEvent = d,
         operation = Some (inherited ''toString'')\<rparr>]"
  "getContractEvents ethers_model (minterAbi prototype_contracts) d = Map.empty"
  "getContractEvents ethers_model (factoryAbi prototype_contracts) d = Map.empty"
  "getContractEvents ethers_model (diamondFactoryAbi prototype_contracts) d = Map.empty"
  "getContractEvents ethers_model (diamondMarketplaceAbi prototype_contracts) d = Map.empty"
  "getContractEvents ethers_model (classicDeprecatedEvents prototype_contracts) d = Map.empty"
  "getContractEvents ethers_model (diamondDeprecatedEvents prototype_contracts) d = Map.empty"
  "getContractEvents ethers_model (resaleMarketplaceEvents prototype_contracts) d = Map.empty"
  "getContractEvents ethers_model (creditHandlerEvents prototype_contracts) d = Map.empty"
  by (simp_all add: getContractEvents_unfold prototype_events register_event_find
      prototype_first_named sample_text_id entry_for_def insertionMapping_toString
      event_entry_def)

text \<open>
  Claim C6 as stated fails on the second corpus, in two ways. The event \<open>toString\<close> of
  the token ABI is no key of the handler table, yet the read of line 103 finds the
  member every object inherits, and the entry is registered with a handler that is not
  empty. The event \<open>SoldOut\<close> of the minter ABI is no key of the handler table
  either; it is declared in the human-readable format, no entry has its name, and it
  is not registered at all.
\<close>
theorem unbound_event_handler_not_empty:
  "map_of insertionMapping_own ''toString'' = None \<and>
   ''toString(uint256)'' \<in> set (utils_events ethers_model (erc721Abi prototype_contracts)) \<and>
   masterMapping ethers_model prototype_contracts (utils_id ethers_model ''toString(uint256)'') =
     Some \<lparr>signature = ''toString(uint256)'',
           abi = [JsonFragment (event_entry ''toString'' [''uint256''])],
           diamondEvent = False,
           operation = Some (inherited ''toString'')\<rparr> \<and>
   map_of insertionMapping_own ''SoldOut'' = None \<and>
   insertionMapping ''SoldOut'' = None \<and>
   ''SoldOut(address,uint256,uint256)''
      \<in> set (utils_events ethers_model (minterAbi prototype_contracts)) \<and>
   masterMapping ethers_model prototype_contracts
     (utils_id ethers_model ''SoldOut(address,uint256,uint256)'') = None \<and>
   \<not> isl (load_module ethers_model prototype_contracts)"
  by (simp add: insertionMapping_own_def insertionMapping_SoldOut prototype_events
      masterMapping_def prototype_parts sample_text_id load_module_def)

theorem event_without_handler_is_registered_witness:
  "insertionMapping (event_name ''SoldOut(address,uint256,uint256)'') = None \<and>
   load_module ethers_model sample_contracts =
     Inr (masterMapping ethers_model sample_contracts,
          console_of ethers_model (build_order sample_contracts)) \<and>
   (\<exists>e. masterMapping ethers_model sample_contracts
          (utils_id ethers_model ''SoldOut(address,uint256,uint256)'') = Some e \<and>
        operation e = None \<and>
        signature e = ''SoldOut(address,uint256,uint256)'' \<and>
        (\<exists>q\<in>set (build_order sample_contracts). \<exists>y.
           ''SoldOut(address,uint256,uint256)'' \<in> set (utils_events ethers_model (fst q)) \<and>
           first_named (fst q) (event_name ''SoldOut(address,uint256,uint256)'') = Some y \<and>
           abi e = [y] \<and> diamondEvent e = snd q))"
proof -
  have s: "''SoldOut(address,uint256,uint256)''
      \<in> set (utils_events ethers_model (fst (minterAbi sample_contracts, False)))"
    by (simp add: sample_events)
  have x: "first_named (fst (minterAbi sample_contracts, False))
      (event_name ''SoldOut(address,uint256,uint256)'') =
      Some (JsonFragment (event_entry ''SoldOut'' [''address'', ''uint256'', ''uint256'']))"
    by (simp add: sample_names sample_first_named)
  have n: "insertionMapping (event_name ''SoldOut(address,uint256,uint256)'') = None"
    by (simp add: sample_names insertionMapping_SoldOut)
  from event_without_handler_is_registered [OF inj_on_text_id sample_order(2) s x n] n
  show ?thesis by blast
qed


section \<open>Properties of the dispatch of log records\<close>

lemma dispatch_ledger_mono:
  "k \<in> ledger st \<Longrightarrow> k \<in> ledger (snd (dispatch env reg st r))"
  by (simp add: dispatch_def split: option.splits)

lemma dispatch_all_ledger_mono:
  "k \<in> ledger st \<Longrightarrow> k \<in> ledger (dispatch_all env reg st rs)"
  unfolding dispatch_all_def
  by (induction rs arbitrary: st) (simp_all add: dispatch_ledger_mono)

lemma dispatch_applied:
  "dispatch env reg st r = (Applied, st1) \<Longrightarrow>
     applied_key r \<notin> ledger st \<and> applied_key r \<in> ledger st1"
  by (auto simp: dispatch_def split: option.splits if_splits)

lemma dispatch_duplicate:
  "applied_key r \<in> ledger st \<Longrightarrow>
     snd (dispatch env reg st r) = st \<and> fst (dispatch env reg st r) \<noteq> Applied"
  by (simp add: dispatch_def split: option.splits)

text \<open>
  Claim C7. After a dispatch of a record has applied its handler, every later dispatch
  of a record with the same transaction hash and log index, whatever was delivered in
  between, leaves persisted state (store and ledger) unchanged and applies nothing; the
  first dispatch did change persisted state. So the pair mutates the state exactly
  once.
\<close>
theorem redelivery_leaves_state_unchanged:
  assumes first: "dispatch env reg st r = (Applied, st1)"
    and same: "transaction_hash r' = transaction_hash r \<and> log_index r' = log_index r"
  shows "st1 \<noteq> st \<and>
         snd (dispatch env reg (dispatch_all env reg st1 rs) r') = dispatch_all env reg st1 rs \<and>
         fst (dispatch env reg (dispatch_all env reg st1 rs) r') \<noteq> Applied"
proof -
  from dispatch_applied [OF first] have k: "applied_key r \<notin> ledger st" "applied_key r \<in> ledger st1"
    by simp_all
  then have ne: "st1 \<noteq> st" by auto
  have "applied_key r' = applied_key r" using same by (simp add: applied_key_def)
  with k(2) have "applied_key r' \<in> ledger (dispatch_all env reg st1 rs)"
    by (simp add: dispatch_all_ledger_mono)
  from dispatch_duplicate [OF this] ne show ?thesis by simp
qed

lemma sample_dispatch:
  "dispatch sample_env sample_registry sample_persisted sample_log =
     (Applied, \<lparr>store = Suc 0, ledger = {(''0x01'', 0)}\<rparr>)"
  by (simp add: dispatch_def sample_env_def sample_registry_def sample_log_def
      sample_persisted_def applied_key_def
      getContractEvents_def getContractEvents_run_def ethers_model_def text_id_def
      interface_events_def sample_contracts_def event_entry_def event_signature_def
      register_event_def event_name_def insertionMapping_def insertionMapping_own_def)

theorem redelivery_leaves_state_unchanged_witness:
  "dispatch sample_env sample_registry sample_persisted sample_log =
     (Applied, \<lparr>store = Suc 0, ledger = {(''0x01'', 0)}\<rparr>) \<and>
   \<lparr>store = Suc 0, ledger = {(''0x01'', 0)}\<rparr> \<noteq> sample_persisted \<and>
   snd (dispatch sample_env sample_registry
          (dispatch_all sample_env sample_registry
             \<lparr>store = Suc 0, ledger = {(''0x01'', 0)}\<rparr> [sample_log])
          (sample_log\<lparr>block_number := 11\<rparr>)) =
     dispatch_all sample_env sample_registry \<lparr>store = Suc 0, ledger = {(''0x01'', 0)}\<rparr>
       [sample_log] \<and>
   dispatch_all sample_env sample_registry \<lparr>store = Suc 0, ledger = {(''0x01'', 0)}\<rparr>
       [sample_log] = \<lparr>store = Suc 0, ledger = {(''0x01'', 0)}\<rparr>"
proof -
  have same: "transaction_hash (sample_log\<lparr>block_number := 11\<rparr>) = transaction_hash sample_log \<and>
      log_index (sample_log\<lparr>block_number := 11\<rparr>) = log_index sample_log"
    by simp
  have again: "dispatch_all sample_env sample_registry \<lparr>store = Suc 0, ledger = {(''0x01'', 0)}\<rparr>
       [sample_log] = \<lparr>store = Suc 0, ledger = {(''0x01'', 0)}\<rparr>"
    by (simp add: dispatch_all_def dispatch_def sample_log_def applied_key_def
        split: option.splits)
  from redelivery_leaves_state_unchanged [OF sample_dispatch same, of "[sample_log]"] again
    sample_dispatch
  show ?thesis by simp
qed

section \<open>Properties of the RAIR_ERC721 contract\<close>

lemma contiguous_from_append:
  "contiguous_from t (cs @ [c]) \<longleftrightarrow>
     contiguous_from t cs \<and>
     startingToken c = (if cs = [] then t else endingToken (last cs)) \<and>
     startingToken c \<le> endingToken c"
  by (induction cs arbitrary: t) auto

lemma last_conv_length: "cs \<noteq> [] \<Longrightarrow> cs ! (length cs - Suc 0) = last cs"
  by (simp add: last_conv_nth)

lemma createCollection_Inr:
  assumes "createCollection sender nm copies resaleAt s = Inr s'"
  shows "hasRole s CREATOR sender \<and> resaleAt \<le> copies \<and>
         unat (if collections s = [] then 0 else endingToken (last (collections s))) + unat copies < 2 ^ 256 \<and>
         collections s' = collections s @
           [\<lparr>startingToken = (if collections s = [] then 0 else endingToken (last (collections s))),
             endingToken = (if collections s = [] then 0 else endingToken (last (collections s))) + copies,
             mintableTokens = copies, enableResaleAt = resaleAt, name = nm\<rparr>]"
  using assms
  by (auto simp: createCollection_def Let_def last_conv_length not_le split: if_splits)

text \<open>
  Claim C9. \<open>createCollection\<close> reverts when \<open>copies < resaleAt\<close>. Every successful call
  appends one collection: its \<open>startingToken\<close> is 0 when it is the first collection
  and the \<open>endingToken\<close> of the previous collection otherwise, and its \<open>endingToken\<close>
  is \<open>startingToken\<close> plus the requested number of copies, without wrap-around. Hence
  the ranges of the collections stay end to end from token 0.
\<close>
theorem createCollection_appends_contiguous:
  "(copies < resaleAt \<longrightarrow> isl (createCollection sender nm copies resaleAt s)) \<and>
   (createCollection sender nm copies resaleAt s = Inr s' \<longrightarrow>
      (\<exists>c. collections s' = collections s @ [c] \<and>
           startingToken c =
             (if collections s = [] then 0 else endingToken (last (collections s))) \<and>
           endingToken c = startingToken c + copies \<and>
           unat (endingToken c) = unat (startingToken c) + unat copies) \<and>
      (contiguous_from 0 (collections s) \<longrightarrow> contiguous_from 0 (collections s')))"
proof (intro conjI impI)
  assume "copies < resaleAt"
  then show "isl (createCollection sender nm copies resaleAt s)"
    by (simp add: createCollection_def not_le)
next
  assume ok: "createCollection sender nm copies resaleAt s = Inr s'"
  let ?t = "if collections s = [] then 0 else endingToken (last (collections s))"
  let ?c = "\<lparr>startingToken = ?t, endingToken = ?t + copies,
             mintableTokens = copies, enableResaleAt = resaleAt, name = nm\<rparr>"
  from createCollection_Inr [OF ok] have
    b: "unat ?t + unat copies < 2 ^ 256" and cs: "collections s' = collections s @ [?c]"
    by simp_all
  have u: "unat (?t + copies) = unat ?t + unat copies"
    using b by (simp add: unat_add_lem [THEN iffD1])
  show "\<exists>c. collections s' = collections s @ [c] \<and>
           startingToken c =
             (if collections s = [] then 0 else endingToken (last (collections s))) \<and>
           endingToken c = startingToken c + copies \<and>
           unat (endingToken c) = unat (startingToken c) + unat copies"
    using cs u by (intro exI [of _ ?c]) simp
  assume inv: "contiguous_from 0 (collections s)"
  have "?t \<le> ?t + copies"
    using u by (simp add: word_le_nat_alt)
  then show "contiguous_from 0 (collections s')"
    using inv unfolding cs contiguous_from_append by simp
qed

text \<open>
  Claim C10. A transfer whose from-address and to-address are both nonzero reverts in
  the hook unless the collection that \<open>tokenToCollection\<close> gives for the token
  exists and has \<open>enableResaleAt\<close> equal to 0; when it has, the hook does what the
  hook of the base contract does. A mint (from the zero address) and a burn (to the
  zero address) skip the check: the hook does what the hook of the base contract does.
\<close>
theorem transfer_requires_resale_enabled:
  "(from \<noteq> 0 \<and> to \<noteq> 0 \<and>
      \<not> (unat (tokenToCollection s tokenId) < length (collections s) \<and>
         enableResaleAt (collections s ! unat (tokenToCollection s tokenId)) = 0)
    \<longrightarrow> isl (beforeTokenTransfer super_hook from to tokenId s)) \<and>
   (from \<noteq> 0 \<and> to \<noteq> 0 \<and>
      unat (tokenToCollection s tokenId) < length (collections s) \<and>
      enableResaleAt (collections s ! unat (tokenToCollection s tokenId)) = 0
    \<longrightarrow> beforeTokenTransfer super_hook from to tokenId s = super_hook from to tokenId s) \<and>
   (from = 0 \<or> to = 0
    \<longrightarrow> beforeTokenTransfer super_hook from to tokenId s = super_hook from to tokenId s)"
  by (auto simp: beforeTokenTransfer_def)

lemma sample_create:
  "createCollection 1 ''second'' 5 0 locked_contract =
     Inr (locked_contract
       \<lparr>collections := collections locked_contract @
          [\<lparr>startingToken = 10, endingToken = 15, mintableTokens = 5, enableResaleAt = 0,
            name = ''second''\<rparr>],
        emitted := [CollectionCreated 1 ''second'' 5, TransfersEnabled 1 ''second'']\<rparr>)"
  by (simp add: createCollection_def locked_contract_def creator_only_def Let_def)

lemma sample_create_first:
  "createCollection 1 ''first'' 10 3 fresh_contract =
     Inr (fresh_contract
       \<lparr>collections :=
          [\<lparr>startingToken = 0, endingToken = 10, mintableTokens = 10, enableResaleAt = 3,
            name = ''first''\<rparr>],
        emitted := [CollectionCreated 0 ''first'' 10]\<rparr>)"
  by (simp add: createCollection_def fresh_contract_def creator_only_def Let_def)

theorem createCollection_appends_contiguous_witness:
  "isl (createCollection 1 ''second'' 5 6 locked_contract) \<and>
   (\<exists>c. [\<lparr>startingToken = 0, endingToken = 10, mintableTokens = 10, enableResaleAt = 3,
            name = ''first''\<rparr>] = collections fresh_contract @ [c] \<and>
        startingToken c = 0 \<and> endingToken c = startingToken c + 10 \<and>
        unat (endingToken c) = unat (startingToken c) + unat (10 :: uint)) \<and>
   contiguous_from 0 (collections locked_contract) \<and>
   (\<exists>c. collections locked_contract @
          [\<lparr>startingToken = 10, endingToken = 15, mintableTokens = 5, enableResaleAt = 0,
            name = ''second''\<rparr>] = collections locked_contract @ [c] \<and>
        startingToken c = 10 \<and> endingToken c = startingToken c + 5 \<and>
        unat (endingToken c) = unat (startingToken c) + unat (5 :: uint)) \<and>
   contiguous_from 0 (collections locked_contract @
          [\<lparr>startingToken = 10, endingToken = 15, mintableTokens = 5, enableResaleAt = 0,
            name = ''second''\<rparr>])"
proof -
  have lt: "(5 :: uint) < 6" by simp
  have inv: "contiguous_from 0 (collections locked_contract)"
    by (simp add: locked_contract_def)
  have l: "endingToken (last (collections locked_contract)) = 10" "collections locked_contract \<noteq> []"
    by (simp_all add: locked_contract_def)
  have e: "collections fresh_contract = []"
    by (simp add: fresh_contract_def)
  from createCollection_appends_contiguous [of 5 6 1 "''second''" locked_contract] lt
  have r: "isl (createCollection 1 ''second'' 5 6 locked_contract)" by blast
  from createCollection_appends_contiguous [of 10 3 1 "''first''" fresh_contract, THEN conjunct2,
      rule_format, OF sample_create_first] e
  have f: "\<exists>c. [\<lparr>startingToken = 0, endingToken = 10, mintableTokens = 10, enableResaleAt = 3,
            name = ''first''\<rparr>] = collections fresh_contract @ [c] \<and>
        startingToken c = 0 \<and> endingToken c = startingToken c + 10 \<and>
        unat (endingToken c) = unat (startingToken c) + unat (10 :: uint)"
    by simp
  from createCollection_appends_contiguous [of 5 0 1 "''second''" locked_contract, THEN conjunct2,
      rule_format, OF sample_create] inv l
  show ?thesis using r f by simp
qed

theorem transfer_requires_resale_enabled_witness:
  "isl (beforeTokenTransfer accept_hook 1 2 7 locked_contract) \<and>
   beforeTokenTransfer accept_hook 0 2 7 locked_contract = accept_hook 0 2 7 locked_contract \<and>
   beforeTokenTransfer accept_hook 1 0 7 locked_contract = accept_hook 1 0 7 locked_contract \<and>
   beforeTokenTransfer accept_hook 1 2 7
     (locked_contract\<lparr>collections :=
        [\<lparr>startingToken = 0, endingToken = 10, mintableTokens = 8, enableResaleAt = 0,
          name = ''first''\<rparr>]\<rparr>) =
     accept_hook 1 2 7
     (locked_contract\<lparr>collections :=
        [\<lparr>startingToken = 0, endingToken = 10, mintableTokens = 8, enableResaleAt = 0,
          name = ''first''\<rparr>]\<rparr>)"
  using transfer_requires_resale_enabled [of 1 2 locked_contract 7 accept_hook]
    transfer_requires_resale_enabled [of 0 2 locked_contract 7 accept_hook]
    transfer_requires_resale_enabled [of 1 0 locked_contract 7 accept_hook]
    transfer_requires_resale_enabled [of 1 2 "locked_contract\<lparr>collections :=
        [\<lparr>startingToken = 0, endingToken = 10, mintableTokens = 8, enableResaleAt = 0,
          name = ''first''\<rparr>]\<rparr>" 7 accept_hook]
  by (simp add: locked_contract_def no_tokens_def)


end
